theory Spec2Isabelle
  imports Complex_Main
begin

section \<open>The drive-by-wire node of \<^verbatim>\<open>ros/src/twist_controller/dbw_node.py\<close>\<close>

text \<open>
  The node keeps three optional velocities, two diagnostic fields and the enable flag.
  Three subscriber callbacks write them; \<^verbatim>\<open>DBWNode.loop\<close> reads them, calls the
  controller and publishes. The embedding passes the node's fields as a record and
  records every call the node makes to a collaborator (the controller, the three
  publishers, the rate object) in the field \<open>calls\<close>, oldest first, and every line
  written with \<^verbatim>\<open>rospy.loginfo\<close> in the field \<open>rosout\<close>.

  What lies outside the file is taken as follows.
  \<^item> \<^verbatim>\<open>twist_controller.Controller\<close> is not part of the file: its two methods are
    parameters (a record of functions over a controller state of any type).
    \<^verbatim>\<open>control\<close> may raise; \<^verbatim>\<open>reset\<close> returns.
  \<^item> The calls into rospy (\<^verbatim>\<open>publish\<close>, \<^verbatim>\<open>Rate.sleep\<close>, \<^verbatim>\<open>loginfo\<close>) return normally.
  \<^item> \<^verbatim>\<open>loop\<close> is called from \<^verbatim>\<open>__init__\<close> and runs on the main thread; rospy runs the
    callbacks on subscriber threads. The schedules of \<open>loop\<close> below deliver each
    callback whole, between two iterations. \<^verbatim>\<open>twist_cmd_cb\<close> stores its two targets in
    two statements, so the node also passes through a state in which only the first is
    stored: \<open>twist_cmd_cb_line_123\<close> gives that state, and an iteration that falls
    there is \<open>loop_body\<close> applied to it.
\<close>

subsection \<open>Values\<close>

text \<open>A Python float: the message fields are float64, so NaN and the infinities occur.\<close>

datatype pyfloat = Float real | PosInf | NegInf | NaN

text \<open>The comparison \<^verbatim>\<open>a <> b\<close> on floats: NaN differs from everything, itself included.\<close>

fun py_ne :: "pyfloat \<Rightarrow> pyfloat \<Rightarrow> bool" where
  "py_ne NaN y = True"
| "py_ne x NaN = True"
| "py_ne x y = (x \<noteq> y)"

datatype py_exception = PyException string

subsection \<open>Messages\<close>

text \<open>
  Of a \<^verbatim>\<open>TwistStamped\<close> the node reads \<^verbatim>\<open>twist.linear.x\<close> and \<^verbatim>\<open>twist.angular.z\<close>.
\<close>

record TwistStamped =
  twist_linear_x :: pyfloat
  twist_angular_z :: pyfloat

text \<open>The command-type constants of \<^verbatim>\<open>dbw_mkz_msgs\<close>, by name.\<close>

datatype pedal_cmd_type = CMD_NONE | CMD_PEDAL | CMD_PERCENT | CMD_TORQUE

text \<open>
  The three command messages, with the fields \<^verbatim>\<open>publish\<close> sets; a freshly constructed
  message has every field at its zero value.
\<close>

record ThrottleCmd =
  tcmd_enable :: bool
  tcmd_pedal_cmd_type :: pedal_cmd_type
  tcmd_pedal_cmd :: pyfloat

record SteeringCmd =
  scmd_enable :: bool
  scmd_steering_wheel_angle_cmd :: pyfloat

record BrakeCmd =
  bcmd_enable :: bool
  bcmd_pedal_cmd_type :: pedal_cmd_type
  bcmd_pedal_cmd :: pyfloat

definition ThrottleCmd_new :: ThrottleCmd where
  "ThrottleCmd_new =
     \<lparr>tcmd_enable = False, tcmd_pedal_cmd_type = CMD_NONE, tcmd_pedal_cmd = Float 0\<rparr>"

definition SteeringCmd_new :: SteeringCmd where
  "SteeringCmd_new = \<lparr>scmd_enable = False, scmd_steering_wheel_angle_cmd = Float 0\<rparr>"

definition BrakeCmd_new :: BrakeCmd where
  "BrakeCmd_new =
     \<lparr>bcmd_enable = False, bcmd_pedal_cmd_type = CMD_NONE, bcmd_pedal_cmd = Float 0\<rparr>"

subsection \<open>Collaborators and the calls made to them\<close>

datatype call =
    ControlCall pyfloat "pyfloat option" pyfloat
  | ResetCall
  | ThrottlePublish ThrottleCmd
  | SteerPublish SteeringCmd
  | BrakePublish BrakeCmd
  | RateSleep

datatype logline = LogDbwEnabled bool | LogVeer pyfloat int

text \<open>
  The controller: \<open>control\<close> takes the controller's state and the three arguments as
  the loop passes them (the second is whatever \<^verbatim>\<open>required_vel_angular\<close> holds), and
  gives the new state with either an exception or (throttle, brake, steer).
\<close>

record 'c Controller =
  control :: "'c \<Rightarrow> pyfloat \<Rightarrow> pyfloat option \<Rightarrow> pyfloat
                \<Rightarrow> 'c \<times> (py_exception + pyfloat \<times> pyfloat \<times> pyfloat)"
  reset :: "'c \<Rightarrow> 'c"

subsection \<open>The node\<close>

record 'c DBWNode =
  required_vel_linear :: "pyfloat option"
  required_vel_angular :: "pyfloat option"
  current_vel_linear :: "pyfloat option"
  last_required_vel_angular :: pyfloat
  count_required_vel_angular :: int
  dbw_enabled :: bool
  sampling_rate :: pyfloat
  controller :: 'c
  calls :: "call list"
  rosout :: "logline list"

text \<open>\<^verbatim>\<open>__init__\<close>, up to the call of \<^verbatim>\<open>loop\<close>; \<open>c0\<close> is the constructed controller.\<close>

definition DBWNode_init :: "'c \<Rightarrow> 'c DBWNode" where
  "DBWNode_init c0 =
     \<lparr>required_vel_linear = None,
      required_vel_angular = None,
      current_vel_linear = None,
      last_required_vel_angular = Float 0,
      count_required_vel_angular = 0,
      dbw_enabled = False,
      sampling_rate = Float 50,
      controller = c0,
      calls = [],
      rosout = []\<rparr>"

definition publish :: "'c DBWNode \<Rightarrow> pyfloat \<Rightarrow> pyfloat \<Rightarrow> pyfloat \<Rightarrow> 'c DBWNode" where
  "publish s throttle brake steer =
     (let tcmd = ThrottleCmd_new\<lparr>tcmd_enable := True,
                                 tcmd_pedal_cmd_type := CMD_PERCENT,
                                 tcmd_pedal_cmd := throttle\<rparr>;
          s1 = s\<lparr>calls := calls s @ [ThrottlePublish tcmd]\<rparr>;
          scmd = SteeringCmd_new\<lparr>scmd_enable := True,
                                 scmd_steering_wheel_angle_cmd := steer\<rparr>;
          s2 = s1\<lparr>calls := calls s1 @ [SteerPublish scmd]\<rparr>;
          bcmd = BrakeCmd_new\<lparr>bcmd_enable := True,
                              bcmd_pedal_cmd_type := CMD_TORQUE,
                              bcmd_pedal_cmd := brake\<rparr>
      in s2\<lparr>calls := calls s2 @ [BrakePublish bcmd]\<rparr>)"

definition dbw_enabled_cb :: "'c Controller \<Rightarrow> 'c DBWNode \<Rightarrow> bool \<Rightarrow> 'c DBWNode" where
  "dbw_enabled_cb C s msg_data =
     (let s1 = s\<lparr>dbw_enabled := msg_data\<rparr>;
          s2 = s1\<lparr>rosout := rosout s1 @ [LogDbwEnabled (dbw_enabled s1)]\<rparr>
      in if \<not> dbw_enabled s2
         then s2\<lparr>controller := reset C (controller s2), calls := calls s2 @ [ResetCall]\<rparr>
         else s2)"

definition current_velocity_cb :: "'c DBWNode \<Rightarrow> TwistStamped \<Rightarrow> 'c DBWNode" where
  "current_velocity_cb s msg = s\<lparr>current_vel_linear := Some (twist_linear_x msg)\<rparr>"

definition twist_cmd_cb :: "'c DBWNode \<Rightarrow> TwistStamped \<Rightarrow> 'c DBWNode" where
  "twist_cmd_cb s msg =
     (let s1 = s\<lparr>required_vel_linear := Some (twist_linear_x msg)\<rparr>;
          s2 = s1\<lparr>required_vel_angular := Some (twist_angular_z msg)\<rparr>;
          s3 = (if py_ne (twist_angular_z msg) (last_required_vel_angular s2)
                then s2\<lparr>rosout := rosout s2 @
                            [LogVeer (twist_angular_z msg) (count_required_vel_angular s2)],
                         count_required_vel_angular := 0\<rparr>
                else s2);
          s4 = s3\<lparr>last_required_vel_angular := twist_angular_z msg\<rparr>
      in s4\<lparr>count_required_vel_angular := count_required_vel_angular s4 + 1\<rparr>)"

text \<open>
  \<^verbatim>\<open>twist_cmd_cb\<close> cut after its first statement: line 123 alone, and lines 124 to 131.
\<close>

definition twist_cmd_cb_line_123 :: "'c DBWNode \<Rightarrow> TwistStamped \<Rightarrow> 'c DBWNode" where
  "twist_cmd_cb_line_123 s msg = s\<lparr>required_vel_linear := Some (twist_linear_x msg)\<rparr>"

definition twist_cmd_cb_lines_124_131 :: "'c DBWNode \<Rightarrow> TwistStamped \<Rightarrow> 'c DBWNode" where
  "twist_cmd_cb_lines_124_131 s1 msg =
     (let s2 = s1\<lparr>required_vel_angular := Some (twist_angular_z msg)\<rparr>;
          s3 = (if py_ne (twist_angular_z msg) (last_required_vel_angular s2)
                then s2\<lparr>rosout := rosout s2 @
                            [LogVeer (twist_angular_z msg) (count_required_vel_angular s2)],
                         count_required_vel_angular := 0\<rparr>
                else s2);
          s4 = s3\<lparr>last_required_vel_angular := twist_angular_z msg\<rparr>
      in s4\<lparr>count_required_vel_angular := count_required_vel_angular s4 + 1\<rparr>)"

text \<open>
  One pass through the body of the \<^verbatim>\<open>while\<close> loop. \<open>Inr\<close> is the node at the end of
  the iteration (through \<^verbatim>\<open>continue\<close> or past \<^verbatim>\<open>rate.sleep()\<close>); \<open>Inl\<close> is an exception
  leaving the body, with the node as it stood then.
\<close>

definition loop_body ::
  "'c Controller \<Rightarrow> 'c DBWNode \<Rightarrow> (py_exception \<times> 'c DBWNode) + 'c DBWNode" where
  "loop_body C s =
     (if current_vel_linear s = None \<or> required_vel_linear s = None \<or> \<not> dbw_enabled s
      then Inr s
      else
        let lin = the (required_vel_linear s);
            cur = the (current_vel_linear s);
            s1 = s\<lparr>calls := calls s @ [ControlCall lin (required_vel_angular s) cur]\<rparr>;
            (c', r) = control C (controller s1) lin (required_vel_angular s) cur;
            s2 = s1\<lparr>controller := c'\<rparr>
        in case r of
             Inl e \<Rightarrow> Inl (e, s2)
           | Inr (throttle, brake, steer) \<Rightarrow>
               (let s3 = publish s2 throttle brake steer
                in Inr (s3\<lparr>calls := calls s3 @ [RateSleep]\<rparr>)))"

text \<open>
  What happens while \<^verbatim>\<open>loop\<close> runs: a message delivered to one of the callbacks, or
  one evaluation of the loop condition, with the answer of \<^verbatim>\<open>rospy.is_shutdown()\<close>.
\<close>

datatype event =
    DbwEnabledMsg bool
  | CurrentVelocityMsg TwistStamped
  | TwistCmdMsg TwistStamped
  | LoopIteration bool

datatype loop_status = Looping | Returned | Propagated py_exception

text \<open>
  \<^verbatim>\<open>loop\<close> over a finite schedule of events. The loop is left when
  \<^verbatim>\<open>rospy.is_shutdown()\<close> answers true at the head of an iteration, or when an
  exception leaves the body; a schedule that ends before that leaves it running.
\<close>

fun loop :: "'c Controller \<Rightarrow> event list \<Rightarrow> 'c DBWNode \<Rightarrow> loop_status \<times> 'c DBWNode" where
  "loop C [] s = (Looping, s)"
| "loop C (DbwEnabledMsg b # es) s = loop C es (dbw_enabled_cb C s b)"
| "loop C (CurrentVelocityMsg m # es) s = loop C es (current_velocity_cb s m)"
| "loop C (TwistCmdMsg m # es) s = loop C es (twist_cmd_cb s m)"
| "loop C (LoopIteration is_shutdown # es) s =
     (if is_shutdown then (Returned, s)
      else case loop_body C s of
             Inl (e, s') \<Rightarrow> (Propagated e, s')
           | Inr s' \<Rightarrow> loop C es s')"

subsection \<open>Reading the record of calls\<close>

fun is_publish :: "call \<Rightarrow> bool" where
  "is_publish (ThrottlePublish _) = True"
| "is_publish (SteerPublish _) = True"
| "is_publish (BrakePublish _) = True"
| "is_publish _ = False"

definition publications :: "call list \<Rightarrow> call list" where
  "publications cs = filter is_publish cs"

definition reset_calls :: "call list \<Rightarrow> nat" where
  "reset_calls cs = length (filter (\<lambda>c. c = ResetCall) cs)"

subsection \<open>Reading the outcome of an iteration\<close>

text \<open>The node after one pass through the loop body, however the body was left.\<close>

definition after_body :: "(py_exception \<times> 'c DBWNode) + 'c DBWNode \<Rightarrow> 'c DBWNode" where
  "after_body r = (case r of Inl (e, s) \<Rightarrow> s | Inr s \<Rightarrow> s)"

text \<open>A list of publications made of whole (throttle, steering, brake) triples.\<close>

fun complete_commands :: "call list \<Rightarrow> bool" where
  "complete_commands [] = True"
| "complete_commands (ThrottlePublish t # SteerPublish st # BrakePublish b # cs) =
     complete_commands cs"
| "complete_commands cs = False"

text \<open>A call that is not a call of \<^verbatim>\<open>control\<close> with None as its angular argument.\<close>

fun angular_passed :: "call \<Rightarrow> bool" where
  "angular_passed (ControlCall lin ang cur) = (ang \<noteq> None)"
| "angular_passed c = True"

subsection \<open>The enable transitions, in the specification's words\<close>

text \<open>
  The number of changes from enabled to disabled in a sequence of enable messages, given
  the flag before the first: the count an edge-triggered reset would make.
\<close>

fun enabled_to_disabled :: "bool \<Rightarrow> bool list \<Rightarrow> nat" where
  "enabled_to_disabled prev [] = 0"
| "enabled_to_disabled prev (b # bs) =
     (if prev \<and> \<not> b then 1 else 0) + enabled_to_disabled b bs"

subsection \<open>Controllers and nodes for the concrete checks\<close>

text \<open>
  A controller that counts its calls since the last reset and answers with its own
  arguments (throttle the target speed, brake the current speed, steer the angular
  target), and one whose \<^verbatim>\<open>control\<close> always raises.
\<close>

definition echo_Controller :: "nat Controller" where
  "echo_Controller =
     \<lparr>control = (\<lambda>c lin ang cur.
        (Suc c, Inr (lin, cur, (case ang of None \<Rightarrow> NaN | Some a \<Rightarrow> a)))),
      reset = (\<lambda>c. 0)\<rparr>"

definition faulty_Controller :: "nat Controller" where
  "faulty_Controller =
     \<lparr>control = (\<lambda>c lin ang cur. (Suc c, Inl (PyException ''ValueError''))),
      reset = (\<lambda>c. 0)\<rparr>"

text \<open>Two velocity messages, and a node that is enabled with both velocities set.\<close>

definition msg_5_0 :: TwistStamped where
  "msg_5_0 = \<lparr>twist_linear_x = Float 5, twist_angular_z = Float 0\<rparr>"

definition msg_9_7 :: TwistStamped where
  "msg_9_7 = \<lparr>twist_linear_x = Float 9, twist_angular_z = Float 7\<rparr>"

definition ready_node :: "nat DBWNode" where
  "ready_node =
     \<lparr>required_vel_linear = Some (Float 5),
      required_vel_angular = Some (Float 2),
      current_vel_linear = Some (Float 3),
      last_required_vel_angular = Float 2,
      count_required_vel_angular = 1,
      dbw_enabled = True,
      sampling_rate = Float 50,
      controller = 0,
      calls = [],
      rosout = [LogDbwEnabled True, LogVeer (Float 2) 0]\<rparr>"

section \<open>Basic facts about the callbacks and the loop body\<close>

lemma loop_body_skip:
  "current_vel_linear s = None \<or> required_vel_linear s = None \<or> \<not> dbw_enabled s
   \<Longrightarrow> loop_body C s = Inr s"
  by (simp add: loop_body_def)

lemma loop_body_raise:
  assumes "current_vel_linear s = Some cur" "required_vel_linear s = Some lin" "dbw_enabled s"
    and "control C (controller s) lin (required_vel_angular s) cur = (c', Inl e)"
  shows "loop_body C s =
           Inl (e, s\<lparr>calls := calls s @ [ControlCall lin (required_vel_angular s) cur],
                     controller := c'\<rparr>)"
  using assms by (simp add: loop_body_def Let_def)

lemma loop_body_ok:
  assumes "current_vel_linear s = Some cur" "required_vel_linear s = Some lin" "dbw_enabled s"
    and "control C (controller s) lin (required_vel_angular s) cur = (c', Inr (throttle, brake, steer))"
  shows "loop_body C s =
           Inr (s\<lparr>calls := calls s @
                    [ControlCall lin (required_vel_angular s) cur,
                     ThrottlePublish \<lparr>tcmd_enable = True, tcmd_pedal_cmd_type = CMD_PERCENT, tcmd_pedal_cmd = throttle\<rparr>,
                     SteerPublish \<lparr>scmd_enable = True, scmd_steering_wheel_angle_cmd = steer\<rparr>,
                     BrakePublish \<lparr>bcmd_enable = True, bcmd_pedal_cmd_type = CMD_TORQUE, bcmd_pedal_cmd = brake\<rparr>,
                     RateSleep],
                  controller := c'\<rparr>)"
  using assms
  by (simp add: loop_body_def Let_def publish_def ThrottleCmd_new_def SteeringCmd_new_def BrakeCmd_new_def)

lemma dbw_enabled_cb_fields:
  "dbw_enabled (dbw_enabled_cb C s b) = b"
  "calls (dbw_enabled_cb C s b) = calls s @ (if b then [] else [ResetCall])"
  "required_vel_linear (dbw_enabled_cb C s b) = required_vel_linear s"
  "required_vel_angular (dbw_enabled_cb C s b) = required_vel_angular s"
  "current_vel_linear (dbw_enabled_cb C s b) = current_vel_linear s"
  by (simp_all add: dbw_enabled_cb_def Let_def)

lemma current_velocity_cb_fields:
  "dbw_enabled (current_velocity_cb s m) = dbw_enabled s"
  "calls (current_velocity_cb s m) = calls s"
  "required_vel_linear (current_velocity_cb s m) = required_vel_linear s"
  "required_vel_angular (current_velocity_cb s m) = required_vel_angular s"
  "current_vel_linear (current_velocity_cb s m) = Some (twist_linear_x m)"
  by (simp_all add: current_velocity_cb_def)

lemma twist_cmd_cb_fields:
  "dbw_enabled (twist_cmd_cb s m) = dbw_enabled s"
  "calls (twist_cmd_cb s m) = calls s"
  "required_vel_linear (twist_cmd_cb s m) = Some (twist_linear_x m)"
  "required_vel_angular (twist_cmd_cb s m) = Some (twist_angular_z m)"
  "current_vel_linear (twist_cmd_cb s m) = current_vel_linear s"
  by (simp_all add: twist_cmd_cb_def Let_def)

lemma loop_body_cases:
  obtains (skip) "current_vel_linear s = None \<or> required_vel_linear s = None \<or> \<not> dbw_enabled s"
      "loop_body C s = Inr s"
  | (raise) lin cur c' e where
      "current_vel_linear s = Some cur" "required_vel_linear s = Some lin" "dbw_enabled s"
      "control C (controller s) lin (required_vel_angular s) cur = (c', Inl e)"
  | (ok) lin cur c' throttle brake steer where
      "current_vel_linear s = Some cur" "required_vel_linear s = Some lin" "dbw_enabled s"
      "control C (controller s) lin (required_vel_angular s) cur = (c', Inr (throttle, brake, steer))"
proof (cases "current_vel_linear s = None \<or> required_vel_linear s = None \<or> \<not> dbw_enabled s")
  case True
  then show ?thesis using skip loop_body_skip by blast
next
  case False
  then obtain cur lin where g: "current_vel_linear s = Some cur" "required_vel_linear s = Some lin" "dbw_enabled s"
    by auto
  obtain c' r where r: "control C (controller s) lin (required_vel_angular s) cur = (c', r)"
    by (cases "control C (controller s) lin (required_vel_angular s) cur")
  show ?thesis
  proof (cases r)
    case (Inl e)
    with g r show ?thesis using raise by blast
  next
    case (Inr t)
    obtain throttle brake steer where "t = (throttle, brake, steer)" by (cases t)
    with Inr g r show ?thesis using ok by blast
  qed
qed






lemma init_fields:
  "dbw_enabled (DBWNode_init c0) = False"
  "required_vel_linear (DBWNode_init c0) = None"
  "required_vel_angular (DBWNode_init c0) = None"
  "current_vel_linear (DBWNode_init c0) = None"
  "calls (DBWNode_init c0) = []"
  by (simp_all add: DBWNode_init_def)

lemma reset_calls_append: "reset_calls (xs @ ys) = reset_calls xs + reset_calls ys"
  by (simp add: reset_calls_def)

lemma reset_calls_foldl:
  "reset_calls (calls (foldl (dbw_enabled_cb C) s msgs)) =
     reset_calls (calls s) + length (filter (\<lambda>b. \<not> b) msgs)"
  by (induction msgs arbitrary: s)
     (simp_all add: dbw_enabled_cb_fields reset_calls_append, simp add: reset_calls_def)

lemma complete_commands_append:
  "complete_commands xs \<Longrightarrow> complete_commands (xs @ ys) = complete_commands ys"
  by (induction xs rule: complete_commands.induct) simp_all

lemma loop_body_publications:
  "publications (calls (after_body (loop_body C s))) = publications (calls s)
   \<or> (\<exists>t st b. publications (calls (after_body (loop_body C s))) =
         publications (calls s) @ [ThrottlePublish t, SteerPublish st, BrakePublish b])"
proof (cases C s rule: loop_body_cases)
  case skip
  then show ?thesis by (simp add: after_body_def)
next
  case (raise lin cur c' e)
  then show ?thesis
    using loop_body_raise [of s cur lin C c' e]
    by (simp add: after_body_def publications_def)
next
  case (ok lin cur c' throttle brake steer)
  then show ?thesis
    using loop_body_ok [of s cur lin C c' throttle brake steer]
    by (simp add: after_body_def publications_def)
qed

lemma loop_body_complete:
  "complete_commands (publications (calls s))
   \<Longrightarrow> complete_commands (publications (calls (after_body (loop_body C s))))"
  using loop_body_publications [of C s] by (auto simp: complete_commands_append)

lemma loop_complete:
  "complete_commands (publications (calls s))
   \<Longrightarrow> complete_commands (publications (calls (snd (loop C es s))))"
proof (induction es arbitrary: s)
  case Nil
  then show ?case by simp
next
  case (Cons e es)
  show ?case
  proof (cases e)
    case (DbwEnabledMsg b)
    have "publications (calls (dbw_enabled_cb C s b)) = publications (calls s)"
      by (simp add: dbw_enabled_cb_fields publications_def)
    with Cons DbwEnabledMsg show ?thesis by simp
  next
    case (CurrentVelocityMsg m)
    with Cons show ?thesis by (simp add: current_velocity_cb_fields)
  next
    case (TwistCmdMsg m)
    with Cons show ?thesis by (simp add: twist_cmd_cb_fields)
  next
    case (LoopIteration sd)
    show ?thesis
    proof (cases sd)
      case True
      with Cons.prems LoopIteration show ?thesis by simp
    next
      case False
      have c: "complete_commands (publications (calls (after_body (loop_body C s))))"
        using Cons.prems by (rule loop_body_complete)
      show ?thesis
      proof (cases "loop_body C s")
        case (Inl p)
        with c LoopIteration False show ?thesis
          by (simp add: after_body_def split: prod.splits)
      next
        case (Inr s')
        with Cons.IH [OF c] LoopIteration False show ?thesis
          by (simp add: after_body_def)
      qed
    qed
  qed
qed

lemma loop_no_enable_msg:
  "\<not> dbw_enabled s \<Longrightarrow> \<forall>b. DbwEnabledMsg b \<notin> set es
   \<Longrightarrow> \<not> dbw_enabled (snd (loop C es s)) \<and> calls (snd (loop C es s)) = calls s"
proof (induction es arbitrary: s)
  case Nil
  then show ?case by simp
next
  case (Cons e es)
  show ?case
  proof (cases e)
    case (DbwEnabledMsg b)
    with Cons.prems show ?thesis by auto
  next
    case (CurrentVelocityMsg m)
    with Cons show ?thesis by (simp add: current_velocity_cb_fields)
  next
    case (TwistCmdMsg m)
    with Cons show ?thesis by (simp add: twist_cmd_cb_fields)
  next
    case (LoopIteration sd)
    with Cons show ?thesis by (simp add: loop_body_skip)
  qed
qed

lemma loop_body_angular:
  assumes "required_vel_linear s \<noteq> None \<longrightarrow> required_vel_angular s \<noteq> None"
    and "list_all angular_passed (calls s)"
  shows "(required_vel_linear (after_body (loop_body C s)) \<noteq> None
            \<longrightarrow> required_vel_angular (after_body (loop_body C s)) \<noteq> None)
         \<and> list_all angular_passed (calls (after_body (loop_body C s)))"
proof (cases C s rule: loop_body_cases)
  case skip
  with assms show ?thesis by (simp add: after_body_def)
next
  case (raise lin cur c' e)
  with assms show ?thesis
    using loop_body_raise [of s cur lin C c' e] by (simp add: after_body_def)
next
  case (ok lin cur c' throttle brake steer)
  with assms show ?thesis
    using loop_body_ok [of s cur lin C c' throttle brake steer] by (simp add: after_body_def)
qed

lemma loop_angular:
  "required_vel_linear s \<noteq> None \<longrightarrow> required_vel_angular s \<noteq> None
   \<Longrightarrow> list_all angular_passed (calls s)
   \<Longrightarrow> (required_vel_linear (snd (loop C es s)) \<noteq> None
          \<longrightarrow> required_vel_angular (snd (loop C es s)) \<noteq> None)
       \<and> list_all angular_passed (calls (snd (loop C es s)))"
proof (induction es arbitrary: s)
  case Nil
  then show ?case by simp
next
  case (Cons e es)
  show ?case
  proof (cases e)
    case (DbwEnabledMsg b)
    have "required_vel_linear (dbw_enabled_cb C s b) \<noteq> None
            \<longrightarrow> required_vel_angular (dbw_enabled_cb C s b) \<noteq> None"
      and "list_all angular_passed (calls (dbw_enabled_cb C s b))"
      using Cons.prems by (simp_all add: dbw_enabled_cb_fields)
    from Cons.IH [OF this] DbwEnabledMsg show ?thesis by simp
  next
    case (CurrentVelocityMsg m)
    have "required_vel_linear (current_velocity_cb s m) \<noteq> None
            \<longrightarrow> required_vel_angular (current_velocity_cb s m) \<noteq> None"
      and "list_all angular_passed (calls (current_velocity_cb s m))"
      using Cons.prems by (simp_all add: current_velocity_cb_fields)
    from Cons.IH [OF this] CurrentVelocityMsg show ?thesis by simp
  next
    case (TwistCmdMsg m)
    have "required_vel_linear (twist_cmd_cb s m) \<noteq> None
            \<longrightarrow> required_vel_angular (twist_cmd_cb s m) \<noteq> None"
      and "list_all angular_passed (calls (twist_cmd_cb s m))"
      using Cons.prems by (simp_all add: twist_cmd_cb_fields)
    from Cons.IH [OF this] TwistCmdMsg show ?thesis by simp
  next
    case (LoopIteration sd)
    show ?thesis
    proof (cases sd)
      case True
      with Cons.prems LoopIteration show ?thesis by simp
    next
      case False
      have b: "required_vel_linear (after_body (loop_body C s)) \<noteq> None
            \<longrightarrow> required_vel_angular (after_body (loop_body C s)) \<noteq> None"
        and c: "list_all angular_passed (calls (after_body (loop_body C s)))"
        using loop_body_angular [OF Cons.prems, of C] by simp_all
      show ?thesis
      proof (cases "loop_body C s")
        case (Inl p)
        with b c LoopIteration False show ?thesis
          by (simp add: after_body_def split: prod.splits)
      next
        case (Inr s')
        with Cons.IH [OF b c] LoopIteration False show ?thesis
          by (simp add: after_body_def)
      qed
    qed
  qed
qed

lemma twist_cmd_cb_cut:
  "twist_cmd_cb s m = twist_cmd_cb_lines_124_131 (twist_cmd_cb_line_123 s m) m"
  by (simp add: twist_cmd_cb_def twist_cmd_cb_line_123_def twist_cmd_cb_lines_124_131_def)

lemma twist_cmd_cb_line_123_fields:
  "dbw_enabled (twist_cmd_cb_line_123 s m) = dbw_enabled s"
  "calls (twist_cmd_cb_line_123 s m) = calls s"
  "controller (twist_cmd_cb_line_123 s m) = controller s"
  "required_vel_linear (twist_cmd_cb_line_123 s m) = Some (twist_linear_x m)"
  "required_vel_angular (twist_cmd_cb_line_123 s m) = required_vel_angular s"
  "current_vel_linear (twist_cmd_cb_line_123 s m) = current_vel_linear s"
  by (simp_all add: twist_cmd_cb_line_123_def)

lemma loop_body_first_call:
  assumes "current_vel_linear s = Some cur" "required_vel_linear s = Some lin" "dbw_enabled s"
  shows "\<exists>rest. calls (after_body (loop_body C s)) =
           calls s @ ControlCall lin (required_vel_angular s) cur # rest"
proof (cases C s rule: loop_body_cases)
  case skip
  with assms show ?thesis by simp
next
  case (raise lin' cur' c' e)
  with assms have "lin' = lin" "cur' = cur" by simp_all
  with raise show ?thesis
    using loop_body_raise [of s cur lin C c' e] by (simp add: after_body_def)
next
  case (ok lin' cur' c' throttle brake steer)
  with assms have "lin' = lin" "cur' = cur" by simp_all
  with ok show ?thesis
    using loop_body_ok [of s cur lin C c' throttle brake steer] by (simp add: after_body_def)
qed

section \<open>The claims\<close>



text \<open>
  Claim C2, as the code has it. The enable callback calls \<^verbatim>\<open>reset\<close> once for every
  message that carries false, whatever the flag was before, and never for a message that
  carries true: over a sequence of messages the number of resets is the number of false
  messages. So a change from enabled to disabled gives exactly one reset and a change
  from disabled to enabled gives none, but a false message that repeats the current value
  gives one more reset. The counterexample delivers false twice to the initial (disabled)
  node: two resets, and no change from enabled to disabled.
\<close>

theorem C2_reset_per_false_message:
  "calls (dbw_enabled_cb C s b) = calls s @ (if b then [] else [ResetCall])
   \<and> reset_calls (calls (foldl (dbw_enabled_cb C) s msgs)) =
       reset_calls (calls s) + length (filter (\<lambda>b. \<not> b) msgs)"
  by (simp only: dbw_enabled_cb_fields reset_calls_foldl simp_thms)

theorem C2_reset_per_false_message_witness:
  "reset_calls (calls (foldl (dbw_enabled_cb echo_Controller) (DBWNode_init 0)
      [True, False, False, True, False])) = 3"
  using C2_reset_per_false_message [of echo_Controller "DBWNode_init 0" True "[True, False, False, True, False]"]
  by (simp add: init_fields reset_calls_def)

theorem C2_repeated_false_counterexample:
  "reset_calls (calls (foldl (dbw_enabled_cb echo_Controller) (DBWNode_init 0) [False, False])) = 2
   \<and> enabled_to_disabled (dbw_enabled (DBWNode_init (0::nat))) [False, False] = 0"
  by (simp add: dbw_enabled_cb_def DBWNode_init_def Let_def reset_calls_def)

text \<open>
  Claim C3 says every iteration ends with \<^verbatim>\<open>rate.sleep()\<close>. The code leaves a skipped
  iteration through \<^verbatim>\<open>continue\<close>, before the sleep: from a node that is disabled or
  lacks a velocity, two consecutive iterations leave the node as it was, with no
  \<open>RateSleep\<close> among its calls.
\<close>

theorem C3_skipped_iteration_does_not_sleep:
  "current_vel_linear s = None \<or> required_vel_linear s = None \<or> \<not> dbw_enabled s
   \<Longrightarrow> loop C [LoopIteration False, LoopIteration False] s = (Looping, s)"
  by (simp add: loop_body_skip)

theorem C3_skipped_iteration_does_not_sleep_witness:
  "calls (snd (loop echo_Controller [LoopIteration False, LoopIteration False] (DBWNode_init 0))) = []"
proof -
  have "current_vel_linear (DBWNode_init (0::nat)) = None" by (simp add: init_fields)
  then show ?thesis
    using C3_skipped_iteration_does_not_sleep [of "DBWNode_init 0" echo_Controller]
    by (simp add: init_fields)
qed

text \<open>
  Claim C4. On an iteration that is not skipped and whose call of \<^verbatim>\<open>control\<close> returns
  (throttle, brake, steer), the controller is called with the target linear velocity, the
  target angular velocity and the current linear velocity, in that order, and the calls
  that follow are one throttle command (enabled, type PERCENT, the returned throttle), one
  steering command (enabled, the returned steer), one brake command (enabled, type TORQUE,
  the returned brake) and the sleep; nothing else of the node changes but the
  controller's state.
\<close>

theorem C4_active_tick_forwards_triple:
  assumes "current_vel_linear s = Some cur" and "required_vel_linear s = Some lin"
    and "dbw_enabled s"
    and "control C (controller s) lin (required_vel_angular s) cur =
           (c', Inr (throttle, brake, steer))"
  shows "loop_body C s =
           Inr (s\<lparr>calls := calls s @
                    [ControlCall lin (required_vel_angular s) cur,
                     ThrottlePublish \<lparr>tcmd_enable = True, tcmd_pedal_cmd_type = CMD_PERCENT,
                                      tcmd_pedal_cmd = throttle\<rparr>,
                     SteerPublish \<lparr>scmd_enable = True, scmd_steering_wheel_angle_cmd = steer\<rparr>,
                     BrakePublish \<lparr>bcmd_enable = True, bcmd_pedal_cmd_type = CMD_TORQUE,
                                   bcmd_pedal_cmd = brake\<rparr>,
                     RateSleep],
                  controller := c'\<rparr>)"
  using assms by (rule loop_body_ok)

theorem C4_active_tick_forwards_triple_witness:
  "loop_body echo_Controller ready_node =
     Inr (ready_node\<lparr>calls :=
            [ControlCall (Float 5) (Some (Float 2)) (Float 3),
             ThrottlePublish \<lparr>tcmd_enable = True, tcmd_pedal_cmd_type = CMD_PERCENT,
                              tcmd_pedal_cmd = Float 5\<rparr>,
             SteerPublish \<lparr>scmd_enable = True, scmd_steering_wheel_angle_cmd = Float 2\<rparr>,
             BrakePublish \<lparr>bcmd_enable = True, bcmd_pedal_cmd_type = CMD_TORQUE,
                           bcmd_pedal_cmd = Float 3\<rparr>,
             RateSleep],
          controller := 1\<rparr>)"
proof -
  have a: "current_vel_linear ready_node = Some (Float 3)"
    and b: "required_vel_linear ready_node = Some (Float 5)"
    and c: "dbw_enabled ready_node"
    and d: "control echo_Controller (controller ready_node) (Float 5)
              (required_vel_angular ready_node) (Float 3) = (1, Inr (Float 5, Float 3, Float 2))"
    by (simp_all add: ready_node_def echo_Controller_def)
  from C4_active_tick_forwards_triple [OF a b c d] show ?thesis
    by (simp add: ready_node_def)
qed

text \<open>
  Claim C5. When \<^verbatim>\<open>control\<close> raises on an iteration that is not skipped, the exception
  leaves the loop body and the loop; the iteration has called the controller and nothing
  else, so no command is published in its place, and the events that follow are not
  processed.
\<close>

theorem C5_controller_fault_propagates:
  assumes "current_vel_linear s = Some cur" and "required_vel_linear s = Some lin"
    and "dbw_enabled s"
    and "control C (controller s) lin (required_vel_angular s) cur = (c', Inl e)"
  shows "loop_body C s =
           Inl (e, s\<lparr>calls := calls s @ [ControlCall lin (required_vel_angular s) cur],
                     controller := c'\<rparr>)
         \<and> loop C (LoopIteration False # es) s =
             (Propagated e,
              s\<lparr>calls := calls s @ [ControlCall lin (required_vel_angular s) cur],
                controller := c'\<rparr>)
         \<and> publications (calls (snd (loop C (LoopIteration False # es) s))) =
             publications (calls s)"
  using loop_body_raise [OF assms] by (simp add: publications_def)

theorem C5_controller_fault_propagates_witness:
  "loop faulty_Controller
     [LoopIteration False, LoopIteration False, DbwEnabledMsg False] ready_node =
     (Propagated (PyException ''ValueError''),
      ready_node\<lparr>calls := [ControlCall (Float 5) (Some (Float 2)) (Float 3)],
                 controller := 1\<rparr>)"
proof -
  have a: "current_vel_linear ready_node = Some (Float 3)"
    and b: "required_vel_linear ready_node = Some (Float 5)"
    and c: "dbw_enabled ready_node"
    and d: "control faulty_Controller (controller ready_node) (Float 5)
              (required_vel_angular ready_node) (Float 3) = (1, Inl (PyException ''ValueError''))"
    by (simp_all add: ready_node_def faulty_Controller_def)
  from C5_controller_fault_propagates [OF a b c d] show ?thesis
    by (simp add: ready_node_def)
qed

text \<open>
  Claim C6 says the linear and angular values passed to \<^verbatim>\<open>control\<close> always come from
  the same target message. The code stores them in two statements with no lock: after a
  first message \<open>m1\<close> has been stored whole and line 123 has run for a second message
  \<open>m2\<close>, the node holds the linear value of \<open>m2\<close> with the angular value of \<open>m1\<close>,
  and an iteration of the loop that falls there, on an enabled node with a current
  velocity, calls \<^verbatim>\<open>control\<close> with that pair.
\<close>

theorem C6_torn_pair_reaches_control:
  assumes "current_vel_linear s = Some cur" and "dbw_enabled s"
  shows "required_vel_linear (twist_cmd_cb_line_123 (twist_cmd_cb s m1) m2) =
           Some (twist_linear_x m2)
         \<and> required_vel_angular (twist_cmd_cb_line_123 (twist_cmd_cb s m1) m2) =
           Some (twist_angular_z m1)
         \<and> (\<exists>rest. calls (after_body
                (loop_body C (twist_cmd_cb_line_123 (twist_cmd_cb s m1) m2))) =
               calls s @ ControlCall (twist_linear_x m2) (Some (twist_angular_z m1)) cur # rest)"
proof -
  let ?t = "twist_cmd_cb_line_123 (twist_cmd_cb s m1) m2"
  have "\<exists>rest. calls (after_body (loop_body C ?t)) =
          calls ?t @ ControlCall (twist_linear_x m2) (required_vel_angular ?t) cur # rest"
    by (rule loop_body_first_call)
       (simp_all add: twist_cmd_cb_line_123_fields twist_cmd_cb_fields assms)
  then show ?thesis
    by (simp add: twist_cmd_cb_line_123_fields twist_cmd_cb_fields assms)
qed

theorem C6_torn_pair_reaches_control_witness:
  "twist_cmd_cb (DBWNode_init 0\<lparr>current_vel_linear := Some (Float 3), dbw_enabled := True\<rparr>)
       \<lparr>twist_linear_x = Float 5, twist_angular_z = Float 2\<rparr>
     = ready_node\<lparr>rosout := [LogVeer (Float 2) 0]\<rparr>
   \<and> calls (after_body (loop_body echo_Controller
        (twist_cmd_cb_line_123 ready_node msg_9_7))) =
     [ControlCall (Float 9) (Some (Float 2)) (Float 3),
      ThrottlePublish \<lparr>tcmd_enable = True, tcmd_pedal_cmd_type = CMD_PERCENT,
                       tcmd_pedal_cmd = Float 9\<rparr>,
      SteerPublish \<lparr>scmd_enable = True, scmd_steering_wheel_angle_cmd = Float 2\<rparr>,
      BrakePublish \<lparr>bcmd_enable = True, bcmd_pedal_cmd_type = CMD_TORQUE,
                    bcmd_pedal_cmd = Float 3\<rparr>,
      RateSleep]
   \<and> required_vel_angular (twist_cmd_cb ready_node msg_9_7) = Some (Float 7)"
proof -
  let ?s0 = "DBWNode_init (0::nat)\<lparr>current_vel_linear := Some (Float 3), dbw_enabled := True\<rparr>"
  let ?m1 = "\<lparr>twist_linear_x = Float 5, twist_angular_z = Float 2\<rparr>"
  have a: "current_vel_linear ?s0 = Some (Float 3)" and b: "dbw_enabled ?s0"
    by simp_all
  have e: "twist_cmd_cb ?s0 ?m1 = ready_node\<lparr>rosout := [LogVeer (Float 2) 0]\<rparr>"
    by (simp add: twist_cmd_cb_def DBWNode_init_def ready_node_def Let_def)
  have d: "calls (after_body (loop_body echo_Controller
        (twist_cmd_cb_line_123 ready_node msg_9_7))) =
     [ControlCall (Float 9) (Some (Float 2)) (Float 3),
      ThrottlePublish \<lparr>tcmd_enable = True, tcmd_pedal_cmd_type = CMD_PERCENT,
                       tcmd_pedal_cmd = Float 9\<rparr>,
      SteerPublish \<lparr>scmd_enable = True, scmd_steering_wheel_angle_cmd = Float 2\<rparr>,
      BrakePublish \<lparr>bcmd_enable = True, bcmd_pedal_cmd_type = CMD_TORQUE,
                    bcmd_pedal_cmd = Float 3\<rparr>,
      RateSleep]"
    by (simp add: loop_body_def Let_def publish_def after_body_def twist_cmd_cb_line_123_def
        ThrottleCmd_new_def SteeringCmd_new_def BrakeCmd_new_def
        echo_Controller_def msg_9_7_def ready_node_def)
  have f: "required_vel_angular (twist_cmd_cb ready_node msg_9_7) = Some (Float 7)"
    by (simp add: twist_cmd_cb_fields msg_9_7_def)
  from C6_torn_pair_reaches_control [OF a b, of ?m1 msg_9_7 echo_Controller] e d f
  show ?thesis by simp
qed

text \<open>
  Claim C7. The answer of \<^verbatim>\<open>rospy.is_shutdown()\<close> is read at the head of an iteration
  only: when it is true the loop returns with the node untouched. One pass through the
  body publishes nothing or exactly a throttle, a steering and a brake command, and
  whatever the schedule, the commands published since start are a sequence of such
  complete triples.
\<close>

theorem C7_all_three_or_none:
  "loop C (LoopIteration True # es) s = (Returned, s)
   \<and> (publications (calls (after_body (loop_body C s))) = publications (calls s)
       \<or> (\<exists>t st b. publications (calls (after_body (loop_body C s))) =
             publications (calls s) @ [ThrottlePublish t, SteerPublish st, BrakePublish b]))
   \<and> complete_commands (publications (calls (snd (loop C es (DBWNode_init c0)))))"
proof (intro conjI)
  show "loop C (LoopIteration True # es) s = (Returned, s)" by simp
  show "publications (calls (after_body (loop_body C s))) = publications (calls s)
       \<or> (\<exists>t st b. publications (calls (after_body (loop_body C s))) =
             publications (calls s) @ [ThrottlePublish t, SteerPublish st, BrakePublish b])"
    by (rule loop_body_publications)
  show "complete_commands (publications (calls (snd (loop C es (DBWNode_init c0)))))"
    by (rule loop_complete) (simp add: init_fields publications_def)
qed

theorem C7_all_three_or_none_witness:
  "loop echo_Controller [LoopIteration True, LoopIteration False] ready_node =
     (Returned, ready_node)
   \<and> complete_commands (publications (calls (snd (loop echo_Controller
        [DbwEnabledMsg True, TwistCmdMsg msg_5_0, CurrentVelocityMsg msg_5_0,
         LoopIteration False, LoopIteration False, LoopIteration True, LoopIteration False]
        (DBWNode_init 0)))))
   \<and> length (publications (calls (snd (loop echo_Controller
        [DbwEnabledMsg True, TwistCmdMsg msg_5_0, CurrentVelocityMsg msg_5_0,
         LoopIteration False, LoopIteration False, LoopIteration True, LoopIteration False]
        (DBWNode_init 0))))) = 6"
proof -
  have n: "length (publications (calls (snd (loop echo_Controller
        [DbwEnabledMsg True, TwistCmdMsg msg_5_0, CurrentVelocityMsg msg_5_0,
         LoopIteration False, LoopIteration False, LoopIteration True, LoopIteration False]
        (DBWNode_init 0))))) = 6"
    by (simp add: loop_body_def Let_def publish_def publications_def
        dbw_enabled_cb_def twist_cmd_cb_def current_velocity_cb_def DBWNode_init_def
        echo_Controller_def msg_5_0_def)
  from C7_all_three_or_none [of echo_Controller
      "[DbwEnabledMsg True, TwistCmdMsg msg_5_0, CurrentVelocityMsg msg_5_0,
         LoopIteration False, LoopIteration False, LoopIteration True, LoopIteration False]"
      ready_node 0] n
  show ?thesis by simp
qed

text \<open>
  Claim C8. The constructed node has \<open>dbw_enabled = False\<close>; as long as no enable
  message is delivered it stays false and the node calls neither the controller nor a
  publisher, whatever velocities arrive and however many iterations run.
\<close>

theorem C8_initially_disabled:
  "\<not> dbw_enabled (DBWNode_init c0)
   \<and> ((\<forall>b. DbwEnabledMsg b \<notin> set es)
        \<longrightarrow> \<not> dbw_enabled (snd (loop C es (DBWNode_init c0)))
            \<and> calls (snd (loop C es (DBWNode_init c0))) = [])"
  using loop_no_enable_msg [of "DBWNode_init c0" es C] by (simp add: init_fields)

theorem C8_initially_disabled_witness:
  "\<not> dbw_enabled (DBWNode_init (0::nat))
   \<and> \<not> dbw_enabled (snd (loop echo_Controller
          [TwistCmdMsg msg_5_0, CurrentVelocityMsg msg_5_0, LoopIteration False,
           LoopIteration False] (DBWNode_init 0)))
   \<and> calls (snd (loop echo_Controller
          [TwistCmdMsg msg_5_0, CurrentVelocityMsg msg_5_0, LoopIteration False,
           LoopIteration False] (DBWNode_init 0))) = []"
proof -
  have h: "\<forall>b. DbwEnabledMsg b \<notin> set [TwistCmdMsg msg_5_0, CurrentVelocityMsg msg_5_0,
             LoopIteration False, LoopIteration False]"
    by simp
  from C8_initially_disabled [of 0 "[TwistCmdMsg msg_5_0, CurrentVelocityMsg msg_5_0,
             LoopIteration False, LoopIteration False]" echo_Controller] h
  show ?thesis by blast
qed

text \<open>
  Claim C9 says a target linear velocity that is set always comes with a target angular
  velocity that is set, so that the readiness check, which looks at the linear target
  only, keeps None away from \<^verbatim>\<open>control\<close>. The code stores the linear target on line 123
  and the angular target on line 124: after line 123 of the first target message the
  linear target is set and the angular target is still None, and an iteration of the
  loop that falls there, on an enabled node with a current velocity, calls
  \<^verbatim>\<open>control\<close> with None as its angular argument. Between whole callbacks the property
  holds (\<open>loop_angular\<close>).
\<close>

theorem C9_none_angular_reaches_control:
  assumes "required_vel_angular s = None" and "current_vel_linear s = Some cur"
    and "dbw_enabled s"
  shows "required_vel_linear (twist_cmd_cb_line_123 s m) \<noteq> None
         \<and> required_vel_angular (twist_cmd_cb_line_123 s m) = None
         \<and> (\<exists>rest. calls (after_body (loop_body C (twist_cmd_cb_line_123 s m))) =
               calls s @ ControlCall (twist_linear_x m) None cur # rest)"
proof -
  have "\<exists>rest. calls (after_body (loop_body C (twist_cmd_cb_line_123 s m))) =
          calls (twist_cmd_cb_line_123 s m)
            @ ControlCall (twist_linear_x m)
                (required_vel_angular (twist_cmd_cb_line_123 s m)) cur # rest"
    by (rule loop_body_first_call) (simp_all add: twist_cmd_cb_line_123_fields assms)
  then show ?thesis by (simp add: twist_cmd_cb_line_123_fields assms)
qed

theorem C9_none_angular_reaches_control_witness:
  "calls (after_body (loop_body echo_Controller
      (twist_cmd_cb_line_123
         (snd (loop echo_Controller [DbwEnabledMsg True, CurrentVelocityMsg msg_5_0]
                 (DBWNode_init 0)))
         msg_5_0))) =
     [ControlCall (Float 5) None (Float 5),
      ThrottlePublish \<lparr>tcmd_enable = True, tcmd_pedal_cmd_type = CMD_PERCENT,
                       tcmd_pedal_cmd = Float 5\<rparr>,
      SteerPublish \<lparr>scmd_enable = True, scmd_steering_wheel_angle_cmd = NaN\<rparr>,
      BrakePublish \<lparr>bcmd_enable = True, bcmd_pedal_cmd_type = CMD_TORQUE,
                    bcmd_pedal_cmd = Float 5\<rparr>,
      RateSleep]
   \<and> \<not> list_all angular_passed (calls (after_body (loop_body echo_Controller
      (twist_cmd_cb_line_123
         (snd (loop echo_Controller [DbwEnabledMsg True, CurrentVelocityMsg msg_5_0]
                 (DBWNode_init 0)))
         msg_5_0))))"
proof -
  let ?s = "snd (loop echo_Controller [DbwEnabledMsg True, CurrentVelocityMsg msg_5_0]
                 (DBWNode_init (0::nat)))"
  have a: "required_vel_angular ?s = None"
    and b: "current_vel_linear ?s = Some (Float 5)"
    and c: "dbw_enabled ?s"
    by (simp_all add: dbw_enabled_cb_def current_velocity_cb_def DBWNode_init_def Let_def
        msg_5_0_def)
  have d: "calls (after_body (loop_body echo_Controller (twist_cmd_cb_line_123 ?s msg_5_0))) =
     [ControlCall (Float 5) None (Float 5),
      ThrottlePublish \<lparr>tcmd_enable = True, tcmd_pedal_cmd_type = CMD_PERCENT,
                       tcmd_pedal_cmd = Float 5\<rparr>,
      SteerPublish \<lparr>scmd_enable = True, scmd_steering_wheel_angle_cmd = NaN\<rparr>,
      BrakePublish \<lparr>bcmd_enable = True, bcmd_pedal_cmd_type = CMD_TORQUE,
                    bcmd_pedal_cmd = Float 5\<rparr>,
      RateSleep]"
    by (simp add: loop_body_def Let_def publish_def after_body_def twist_cmd_cb_line_123_def
        dbw_enabled_cb_def current_velocity_cb_def DBWNode_init_def
        ThrottleCmd_new_def SteeringCmd_new_def BrakeCmd_new_def
        echo_Controller_def msg_5_0_def)
  from C9_none_angular_reaches_control [OF a b c, of msg_5_0 echo_Controller] d
  show ?thesis by simp
qed

text \<open>
  Claim C10. \<^verbatim>\<open>current_velocity_cb\<close> changes \<open>current_vel_linear\<close> and nothing else.
  \<^verbatim>\<open>twist_cmd_cb\<close> changes the two target velocities and the two diagnostic fields, and
  writes a log line when the angular target differs from the last one; it leaves
  \<open>dbw_enabled\<close>, the current velocity, the controller and the record of calls
  (controller calls, publications) as they were.
\<close>

theorem C10_velocity_callbacks_frame:
  "current_velocity_cb s m = s\<lparr>current_vel_linear := Some (twist_linear_x m)\<rparr>
   \<and> twist_cmd_cb s m =
       s\<lparr>required_vel_linear := Some (twist_linear_x m),
         required_vel_angular := Some (twist_angular_z m),
         last_required_vel_angular := twist_angular_z m,
         count_required_vel_angular :=
           (if py_ne (twist_angular_z m) (last_required_vel_angular s) then 1
            else count_required_vel_angular s + 1),
         rosout := rosout s @
           (if py_ne (twist_angular_z m) (last_required_vel_angular s)
            then [LogVeer (twist_angular_z m) (count_required_vel_angular s)] else [])\<rparr>
   \<and> dbw_enabled (twist_cmd_cb s m) = dbw_enabled s
   \<and> current_vel_linear (twist_cmd_cb s m) = current_vel_linear s
   \<and> controller (twist_cmd_cb s m) = controller s
   \<and> calls (twist_cmd_cb s m) = calls s
   \<and> dbw_enabled (current_velocity_cb s m) = dbw_enabled s
   \<and> controller (current_velocity_cb s m) = controller s
   \<and> calls (current_velocity_cb s m) = calls s"
  by (simp add: current_velocity_cb_def twist_cmd_cb_def Let_def)

theorem C10_velocity_callbacks_frame_witness:
  "current_velocity_cb ready_node msg_5_0 = ready_node\<lparr>current_vel_linear := Some (Float 5)\<rparr>
   \<and> twist_cmd_cb ready_node msg_5_0 =
       ready_node\<lparr>required_vel_linear := Some (Float 5),
         required_vel_angular := Some (Float 0),
         last_required_vel_angular := Float 0,
         count_required_vel_angular := 1,
         rosout := [LogDbwEnabled True, LogVeer (Float 2) 0, LogVeer (Float 0) 1]\<rparr>
   \<and> calls (twist_cmd_cb ready_node msg_5_0) = []"
  using C10_velocity_callbacks_frame [of ready_node msg_5_0]
  by (simp add: ready_node_def msg_5_0_def)

end
